theory Spec2Isabelle
  imports Main "HOL-Library.AList" "HOL-Library.Sublist"
begin

section \<open>The MScape ingest validator as a shallow embedding\<close>

text \<open>
  The program is \<^verbatim>\<open>roz_scripts/mscape/mscape_ingest_validation.py\<close>: a loop that
  receives a message, runs a Nextflow pipeline, reads its execution trace, creates a
  record in Onyx, uploads files to S3 and sends the payload to a results exchange.

  The payload is a Python dict that every stage mutates in place. Here it is a record
  with one field per key the code reads or writes. Each stage is a function from the
  payload (and the outcome of the external calls it makes) to three things: what the
  Python function does at the end (\<open>Inr\<close> its return value, \<open>Inl\<close> the exception that
  leaves it), the payload as mutated up to that point, and the external calls made, in
  order. Log lines are not modelled.

  The collaborators are not in the repository's sources: the message bus (\<open>varys\<close>),
  the Onyx client, \<open>boto3\<close>, \<open>subprocess\<close>, and the module \<open>utils.utils\<close> whose
  \<open>s3_to_fh\<close> the create call is given. What each of their calls does (return a
  value, raise) is an argument of the stage that makes the call; sending a message
  always succeeds. A payload has every key the code reads, and a received message
  answers \<open>message['site']\<close> and \<open>message.body\<close>. The model is of the function bodies
  as Python runs them once the module is loaded.
\<close>

subsection \<open>Exceptions\<close>

datatype py_error =
    UnboundLocalError string
  | KeyError string
  | IndexError
  | TypeError string
  | ValueError string
  | External string

definition quoted :: "string \<Rightarrow> string" where
  "quoted s = CHR 0x27 # s @ [CHR 0x27]"

text \<open>\<open>str(e)\<close>, as the f-strings of the handlers format it (CPython 3.11 wording).\<close>

fun exc_str :: "py_error \<Rightarrow> string" where
  "exc_str (UnboundLocalError v) =
     ''cannot access local variable '' @ quoted v @ '' where it is not associated with a value''"
| "exc_str (KeyError k) = quoted k"
| "exc_str IndexError = ''list index out of range''"
| "exc_str (TypeError m) = m"
| "exc_str (ValueError m) = m"
| "exc_str (External m) = m"

subsection \<open>Strings and paths\<close>

fun digits :: "nat \<Rightarrow> string" where
  "digits n = (if n < 10 then [''0123456789'' ! n]
               else digits (n div 10) @ [''0123456789'' ! (n mod 10)])"

declare digits.simps [simp del]

definition str_int :: "int \<Rightarrow> string" where
  "str_int i = (if i < 0 then CHR ''-'' # digits (nat (- i)) else digits (nat i))"

text \<open>\<open>os.path.join\<close> of two components (POSIX).\<close>

definition path_join :: "string \<Rightarrow> string \<Rightarrow> string" where
  "path_join a b =
     (if b \<noteq> [] \<and> hd b = CHR ''/'' then b
      else if a = [] \<or> last a = CHR ''/'' then a @ b
      else a @ ''/'' @ b)"

text \<open>\<open>name.split(":")[-1]\<close>: what follows the last colon, the whole string if there is none.\<close>

definition short_name :: "string \<Rightarrow> string" where
  "short_name s = rev (takeWhile (\<lambda>c. c \<noteq> CHR '':'') (rev s))"

subsection \<open>The payload and the message bus\<close>

record file_ref =
  uri :: string
  etag :: string

text \<open>
  \<open>cid\<close> is \<open>False\<close> (here \<open>None\<close>) until Onyx assigns one. \<open>onyx_errors\<close> maps a field
  name to its messages; the key \<open>onyx_client_errors\<close> is the bucket for client errors.
\<close>

record payload =
  uuid :: string
  artifact :: string
  project :: string
  site :: string
  site_code :: string
  platform :: string
  files :: "string \<Rightarrow> file_ref"
  cid :: "string option"
  created :: bool
  ingested :: bool
  test_flag :: bool
  test_ingest_result :: bool
  onyx_test_create_status :: bool
  onyx_status_code :: "int option"
  onyx_errors :: "string \<rightharpoonup> string list"
  onyx_create_status :: bool
  ingest_errors :: "string list"

text \<open>What \<open>f"{payload['cid']}"\<close> prints.\<close>

definition cid_str :: "payload \<Rightarrow> string" where
  "cid_str p = (case cid p of None \<Rightarrow> ''False'' | Some c \<Rightarrow> c)"

record taxon_dict =
  td_taxon_id :: string
  td_human_readable :: string
  td_n_reads :: string
  td_avg_quality :: string
  td_mean_len :: string
  td_tax_level :: string
  td_reads :: "(string \<times> string) list"

datatype field_value = Str string | Taxa "taxon_dict list"

record new_artifact =
  na_ingest_timestamp :: int
  na_cid :: "string option"
  na_site :: string
  na_match_uuid :: string

text \<open>
  What is sent: a payload, a new-artifact notification, or (when \<open>run\<close> has bound
  \<open>payload\<close> to a chunk of a response body) a byte string.
\<close>

datatype bus_message = Outcome payload | New_Artifact new_artifact | Raw_Bytes string

text \<open>
  The external calls: \<open>subprocess.run(cmd, timeout)\<close>, \<open>client.csv_create(project, csv)\<close>
  (the CSV named by its URI and etag), \<open>client.update(project, cid, fields)\<close>,
  \<open>s3_client.upload_file(path, bucket, key)\<close> and \<open>varys_client.send(message, exchange)\<close>.
\<close>

datatype action =
    Subprocess "string list" nat
  | Onyx_Create string string string
  | Onyx_Update string "string option" "(string \<times> field_value) list"
  | S3_Upload string string string
  | Send string bus_message

fun is_outcome_to :: "string \<Rightarrow> action \<Rightarrow> bool" where
  "is_outcome_to ex (Send ex' (Outcome p)) = (ex' = ex)"
| "is_outcome_to ex a = False"

text \<open>The number of outcome messages sent to an exchange.\<close>

definition outcomes_sent :: "string \<Rightarrow> action list \<Rightarrow> nat" where
  "outcomes_sent ex acts = length (filter (is_outcome_to ex) acts)"

definition add_ingest_error :: "string \<Rightarrow> payload \<Rightarrow> payload" where
  "add_ingest_error msg p = p\<lparr>ingest_errors := ingest_errors p @ [msg]\<rparr>"

definition client_bucket :: string where
  "client_bucket = ''onyx_client_errors''"

text \<open>\<open>payload["onyx_errors"]["onyx_client_errors"] = [msg]\<close>: an assignment.\<close>

definition set_client_error :: "string \<Rightarrow> payload \<Rightarrow> payload" where
  "set_client_error msg p = p\<lparr>onyx_errors := (onyx_errors p)(client_bucket \<mapsto> [msg])\<rparr>"

subsection \<open>The execution trace (\<open>ret_0_parser\<close>)\<close>

record trace_row =
  name :: string
  exit :: string
  status :: string

text \<open>
  What reading the trace file gives: \<open>open\<close> raises, or the reader yields rows and then
  either ends or raises (a row that cannot be parsed, a read error).
\<close>

datatype trace_file = Cannot_Open string | Trace_Rows "trace_row list" "string option"

text \<open>\<open>trace_dict[process["name"].split(":")[-1]] = process\<close>, row after row.\<close>

fun build_trace_dict ::
  "trace_row list \<Rightarrow> (string \<times> trace_row) list \<Rightarrow> (string \<times> trace_row) list" where
  "build_trace_dict [] d = d"
| "build_trace_dict (process # rest) d =
     build_trace_dict rest (AList.update (short_name (name process)) process d)"

definition human_reads_message :: string where
  "human_reads_message =
     ''Human reads detected above rejection threshold, please ensure pre-upload dehumanisation has been performed properly''"

definition process_failed_message :: "string \<Rightarrow> trace_row \<Rightarrow> string" where
  "process_failed_message process trace =
     ''MScape validation pipeline (Scylla) failed in process '' @ process @
     '' with exit code '' @ exit trace @ '' and status '' @ status trace"

text \<open>
  The loop over \<open>trace_dict.items()\<close>. In Python \<open>and\<close> binds tighter than \<open>or\<close>, so the
  condition of the source reads \<open>A or (B and C)\<close>.
\<close>

fun trace_loop :: "(string \<times> trace_row) list \<Rightarrow> bool \<times> payload \<Rightarrow> bool \<times> payload" where
  "trace_loop [] st = st"
| "trace_loop ((process, trace) # rest) (ingest_fail, p) =
     trace_loop rest
       (if exit trace \<noteq> ''0'' then
          (if process = ''extract_paired_reads'' \<or>
              (process = ''extract_reads'' \<and> exit trace = ''2'')
           then (True, add_ingest_error human_reads_message p)
           else (True, add_ingest_error (process_failed_message process trace) p))
        else (ingest_fail, p))"

definition results_exchange :: "string \<Rightarrow> string" where
  "results_exchange site_name = ''inbound.results.mscape.'' @ site_name"

text \<open>
  \<open>trace_dict\<close> is bound inside the \<open>try\<close>, after \<open>open\<close>: when \<open>open\<close> raises, the
  handler runs and the loop after it reads an unbound local.
\<close>

definition ret_0_parser ::
  "payload \<Rightarrow> string \<Rightarrow> trace_file \<Rightarrow> bool \<Rightarrow> (py_error + bool) \<times> payload \<times> action list" where
  "ret_0_parser p site_name tf ingest_fail =
     (case tf of
        Cannot_Open e \<Rightarrow>
          (let p1 = add_ingest_error ''couldn't open nxf ingest pipeline trace'' p
           in (Inl (UnboundLocalError ''trace_dict''), p1,
               [Send (results_exchange site_name) (Outcome p1)]))
      | Trace_Rows rows None \<Rightarrow>
          (let (f, p1) = trace_loop (build_trace_dict rows []) (ingest_fail, p)
           in (Inr f, p1, []))
      | Trace_Rows rows (Some e) \<Rightarrow>
          (let p1 = add_ingest_error ''couldn't open nxf ingest pipeline trace'' p;
               (f, p2) = trace_loop (build_trace_dict rows []) (True, p1)
           in (Inr f, p2, [Send (results_exchange site_name) (Outcome p1)])))"

subsection \<open>The pipeline executor (\<open>pipeline.execute\<close>, \<open>execute_validation_pipeline\<close>)\<close>

record pipeline =
  pipe :: string
  config :: "string option"
  nxf_executable :: string
  profile :: "string option"
  timeout_seconds :: nat

text \<open>\<open>pipeline.__init__\<close>; \<open>timeout_seconds\<close> defaults to 3600. Paths are taken as resolved.\<close>

definition default_timeout_seconds :: nat where
  "default_timeout_seconds = 3600"

definition pipeline_init ::
  "string \<Rightarrow> string option \<Rightarrow> string \<Rightarrow> string option \<Rightarrow> nat \<Rightarrow> pipeline" where
  "pipeline_init pi co nx pr t =
     \<lparr>pipe = pi,
      config = (case co of None \<Rightarrow> None | Some c \<Rightarrow> if c = [] then None else Some c),
      nxf_executable = nx, profile = pr, timeout_seconds = t\<rparr>"

text \<open>
  What \<open>subprocess.run\<close> does: it returns a completed process (return code, stdout,
  stderr), or it kills the child at the timeout and raises \<open>TimeoutExpired\<close>.
\<close>

datatype proc_outcome = Completed int string string | Timeout_Expired

definition command_line :: "pipeline \<Rightarrow> (string \<times> string) list \<Rightarrow> string list" where
  "command_line self params =
     [nxf_executable self, ''run'', ''-r'', ''main'', ''-latest'', pipe self]
     @ (case config self of None \<Rightarrow> [] | Some c \<Rightarrow> [''-c'', c])
     @ (case profile self of None \<Rightarrow> [] | Some pr \<Rightarrow> if pr = [] then [] else [''-profile'', pr])
     @ concat (map (\<lambda>(k, v). [''--'' @ k, v]) params)"

text \<open>
  \<open>proc\<close> is bound by \<open>subprocess.run\<close> only when it returns: after \<open>TimeoutExpired\<close> the
  \<open>return\<close> statement reads an unbound local.
\<close>

definition execute ::
  "pipeline \<Rightarrow> (string \<times> string) list \<Rightarrow> proc_outcome \<Rightarrow>
   (py_error + int \<times> bool \<times> string \<times> string) \<times> action list" where
  "execute self params pr =
     (case pr of
        Completed rc out err \<Rightarrow> Inr (rc, False, out, err)
      | Timeout_Expired \<Rightarrow> Inl (UnboundLocalError ''proc''),
      [Subprocess (command_line self params) (timeout_seconds self)])"

definition base_parameters :: "payload \<Rightarrow> string \<Rightarrow> (string \<times> string) list" where
  "base_parameters p result_dir =
     [(''out_dir'', result_dir), (''unique_id'', uuid p), (''climb'', []),
      (''max_human_reads_before_rejection'', ''10000''), (''k2_host'', ''10.1.185.58''),
      (''k2_port'', ''8080''), (''db'', ''/shared/public/db/kraken2/k2_pluspf/'')]"

text \<open>The \<open>else\<close> branch of the source only logs; the call of \<open>execute\<close> follows in every branch.\<close>

definition execute_validation_pipeline ::
  "payload \<Rightarrow> string \<Rightarrow> pipeline \<Rightarrow> proc_outcome \<Rightarrow>
   (py_error + int \<times> bool \<times> string \<times> string) \<times> action list" where
  "execute_validation_pipeline p result_dir ingest_pipe pr =
     (let parameters =
        (if platform p = ''ont'' then
           base_parameters p result_dir @ [(''fastq'', uri (files p ''.fastq.gz''))]
         else if platform p = ''illumina'' then
           base_parameters p result_dir @
             [(''fastq1'', uri (files p ''.1.fastq.gz'')),
              (''fastq2'', uri (files p ''.2.fastq.gz'')), (''paired'', [])]
         else base_parameters p result_dir)
      in execute ingest_pipe parameters pr)"

subsection \<open>Onyx responses\<close>

text \<open>
  A response of the Onyx client: its status code and, from its JSON body, the
  \<open>messages\<close> object (in the order of its items, \<open>None\<close> when the key is missing) and
  \<open>data.cid\<close>. The code reads \<open>status_code\<close> and \<open>json()\<close> from it and catches
  \<open>requests.HTTPError\<close> around the call: it is a \<open>requests.Response\<close>, and iterating
  one yields its body in chunks of 128 bytes (\<open>chunks\<close>).
\<close>

record response =
  status_code :: int
  messages :: "(string \<times> string list) list option"
  data_cid :: "string option"
  chunks :: "string list"

text \<open>
  The loop shared by the create and the update paths:
  \<^verbatim>\<open>
  for field, messages in response.json()["messages"].items():
      if payload["onyx_errors"].get(field):
          payload["onyx_errors"][field].extend(messages)
      else:
          payload["onyx_errors"][field] = messages
  \<close>
\<close>

fun merge_loop ::
  "(string \<times> string list) list \<Rightarrow> (string \<rightharpoonup> string list) \<Rightarrow> (string \<rightharpoonup> string list)" where
  "merge_loop [] errs = errs"
| "merge_loop ((field, msgs) # rest) errs =
     merge_loop rest
       (case errs field of
          None \<Rightarrow> errs(field \<mapsto> msgs)
        | Some old \<Rightarrow> if old = [] then errs(field \<mapsto> msgs) else errs(field \<mapsto> old @ msgs))"

text \<open>\<open>if response.json().get("messages"):\<close> and the loop; an empty object is falsy.\<close>

definition merge_messages :: "response \<Rightarrow> payload \<Rightarrow> payload" where
  "merge_messages r p =
     (case messages r of
        None \<Rightarrow> p
      | Some ms \<Rightarrow> if ms = [] then p else p\<lparr>onyx_errors := merge_loop ms (onyx_errors p)\<rparr>)"

subsection \<open>Record creation (\<open>onyx_submission\<close>)\<close>

text \<open>
  What \<open>next(client.csv_create(...))\<close> gives, the download of the CSV included: an
  exception, or a response.
\<close>

datatype create_outcome = Create_Raised string | Create_Response response

text \<open>
  The \<open>if\<close>/\<open>elif\<close> chain on the status code. The local \<open>ingest_fail\<close> is assigned in
  every branch but the one for 201, so the result holds its binding: \<open>None\<close> when it is
  still unbound. The 201 branch reads \<open>response.json()['data']['cid']\<close> first.
\<close>

definition status_branch :: "response \<Rightarrow> payload \<Rightarrow> py_error + bool option \<times> payload" where
  "status_branch r p =
     (if status_code r = 500 then Inr (Some True, set_client_error ''Onyx internal server error'' p)
      else if status_code r = 422 then Inr (Some True, merge_messages r p)
      else if status_code r = 404 then
        Inr (Some True, set_client_error (''Project '' @ project p @ '' does not exist'') p)
      else if status_code r = 403 then
        Inr (Some True, set_client_error ''Bad fields in onyx create request'' p)
      else if status_code r = 401 then
        Inr (Some True, set_client_error ''Incorrect Onyx credentials'' p)
      else if status_code r = 400 then
        Inr (Some True, set_client_error ''Malformed onyx create request'' p)
      else if status_code r = 200 then
        Inr (Some True, set_client_error ''200 response status on onyx create (should be 201)'' p)
      else if status_code r = 201 then
        (case data_cid r of
           None \<Rightarrow> Inl (KeyError ''cid'')
         | Some c \<Rightarrow> Inr (None, p\<lparr>cid := Some c, created := True, onyx_create_status := True\<rparr>))
      else
        Inr (Some True,
             set_client_error
               (''Unhandled response status code '' @ str_int (status_code r) @ '' from Onyx create'') p))"

text \<open>
  The body of the \<open>try\<close>: the create call, the status chain, then
  \<open>if ingest_fail: varys_client.send(...)\<close>. The result is the exception that ends the
  body (if any), the binding of \<open>ingest_fail\<close>, the payload and the messages sent.
\<close>

definition submission_try ::
  "create_outcome \<Rightarrow> payload \<Rightarrow> py_error option \<times> bool option \<times> payload \<times> action list" where
  "submission_try cr p =
     (case cr of
        Create_Raised e \<Rightarrow> (Some (External e), None, p, [])
      | Create_Response r \<Rightarrow>
          (case status_branch r (p\<lparr>onyx_status_code := Some (status_code r)\<rparr>) of
             Inl e \<Rightarrow> (Some e, None, p\<lparr>onyx_status_code := Some (status_code r)\<rparr>, [])
           | Inr (None, p1) \<Rightarrow> (Some (UnboundLocalError ''ingest_fail''), None, p1, [])
           | Inr (Some fl, p1) \<Rightarrow>
               (None, Some fl, p1,
                if fl then [Send (results_exchange (site_code p1)) (Outcome p1)] else [])))"

text \<open>
  \<open>except Exception as e\<close> assigns the client-error bucket; \<open>return (ingest_fail, payload)\<close>
  then reads \<open>ingest_fail\<close>, bound or not.
\<close>

definition onyx_submission ::
  "create_outcome \<Rightarrow> payload \<Rightarrow> (py_error + bool) \<times> payload \<times> action list" where
  "onyx_submission cr p =
     (case submission_try cr p of
        (exc, ingest_fail, p1, sent) \<Rightarrow>
          (case ingest_fail of
             None \<Rightarrow> Inl (UnboundLocalError ''ingest_fail'')
           | Some fl \<Rightarrow> Inr fl,
           case exc of
             None \<Rightarrow> p1
           | Some e \<Rightarrow> set_client_error (''Unhandled client error '' @ exc_str e) p1,
           Onyx_Create (project p) (uri (files p ''.csv'')) (etag (files p ''.csv'')) # sent))"

subsection \<open>Object storage and record updates\<close>

text \<open>
  What \<open>s3_client.upload_file(path, bucket, key)\<close> does: it returns, raises
  \<open>ClientError\<close>, or raises something else. What \<open>client.update(...)\<close> does: it
  returns a response, raises \<open>requests.HTTPError\<close>, or raises something else.
\<close>

datatype upload_outcome = Uploaded | Client_Error string | Upload_Error string

type_synonym s3 = "string \<Rightarrow> string \<Rightarrow> string \<Rightarrow> upload_outcome"

datatype update_outcome = Update_Response response | Update_HTTPError string | Update_Error string

definition s3_uri :: "string \<Rightarrow> string \<Rightarrow> string" where
  "s3_uri bucket key = ''s3://'' @ bucket @ ''/'' @ key"

text \<open>
  The \<open>try\<close> around \<open>client.update\<close> in \<open>add_taxon_records\<close> and \<open>push_report_file\<close>:
  200 is success, any other status merges the messages and fails, and
  \<open>except Exception\<close> assigns the client-error bucket and fails.
\<close>

definition handle_update :: "update_outcome \<Rightarrow> bool \<Rightarrow> payload \<Rightarrow> bool \<times> payload" where
  "handle_update upd fl p =
     (case upd of
        Update_Response r \<Rightarrow> if status_code r = 200 then (fl, p) else (True, merge_messages r p)
      | Update_HTTPError e \<Rightarrow> (True, set_client_error (''Unhandled client error '' @ e) p)
      | Update_Error e \<Rightarrow> (True, set_client_error (''Unhandled client error '' @ e) p))"

subsection \<open>Raw reads (\<open>add_reads_record\<close>)\<close>

text \<open>The function returns the pair \<open>(raw_read_fail, payload)\<close>, or the response of the update.\<close>

datatype reads_return = Tuple bool | Response_Object response

definition reads_bucket :: string where
  "reads_bucket = ''mscapetest-published-reads''"

text \<open>\<open>for i in (1, 2)\<close>: a \<open>ClientError\<close> is recorded and the loop goes on.\<close>

fun upload_reads_loop ::
  "s3 \<Rightarrow> string \<Rightarrow> nat list \<Rightarrow> bool \<Rightarrow> payload \<Rightarrow>
   py_error option \<times> bool \<times> payload \<times> action list" where
  "upload_reads_loop store result_path [] fl p = (None, fl, p, [])"
| "upload_reads_loop store result_path (i # rest) fl p =
     (let fastq_path =
            path_join result_path (''preprocess/'' @ uuid p @ ''_'' @ digits i @ ''.fastp.fastq.gz'');
          key = cid_str p @ ''_'' @ digits i @ ''.fastq.gz''
      in case store fastq_path reads_bucket key of
           Uploaded \<Rightarrow>
             (case upload_reads_loop store result_path rest fl p of
                (e, fl', p', acts) \<Rightarrow> (e, fl', p', S3_Upload fastq_path reads_bucket key # acts))
         | Client_Error e \<Rightarrow>
             (case upload_reads_loop store result_path rest True
                     (add_ingest_error ''Failed to upload reads to storage bucket'' p) of
                (e', fl', p', acts) \<Rightarrow> (e', fl', p', S3_Upload fastq_path reads_bucket key # acts))
         | Upload_Error e \<Rightarrow>
             (Some (External e), fl, p, [S3_Upload fastq_path reads_bucket key]))"

text \<open>
  \<open>if not raw_read_fail:\<close> the update, whose response is returned as it is; only
  \<open>requests.HTTPError\<close> is caught.
\<close>

definition link_reads ::
  "string option \<Rightarrow> (string \<times> field_value) list \<Rightarrow> update_outcome \<Rightarrow> bool \<Rightarrow> payload \<Rightarrow>
   (py_error + reads_return) \<times> payload \<times> action list" where
  "link_reads cid_arg flds upd fl p =
     (if fl then (Inr (Tuple fl), p, [])
      else
        (case upd of
           Update_Response r \<Rightarrow> Inr (Response_Object r)
         | Update_HTTPError e \<Rightarrow> Inr (Tuple True)
         | Update_Error e \<Rightarrow> Inl (External e),
         p, [Onyx_Update ''mscapetest'' cid_arg flds]))"

definition add_reads_record ::
  "string option \<Rightarrow> payload \<Rightarrow> s3 \<Rightarrow> update_outcome \<Rightarrow> string \<Rightarrow>
   (py_error + reads_return) \<times> payload \<times> action list" where
  "add_reads_record cid_arg p store upd result_path =
     (if platform p = ''illumina'' then
        (case upload_reads_loop store result_path [1, 2] False p of
           (Some e, fl, p1, acts) \<Rightarrow> (Inl e, p1, acts)
         | (None, fl, p1, acts) \<Rightarrow>
             (case link_reads cid_arg
                     [(''reads_1'', Str (s3_uri reads_bucket (cid_str p1 @ ''_1.fastq.gz''))),
                      (''reads_2'', Str (s3_uri reads_bucket (cid_str p1 @ ''_2.fastq.gz'')))]
                     upd fl p1 of
                (res, p2, acts2) \<Rightarrow> (res, p2, acts @ acts2)))
      else
        (let fastq_path = path_join result_path (''preprocess/'' @ uuid p @ ''.fastp.fastq.gz'');
             key = cid_str p @ ''.fastq.gz''
         in case store fastq_path reads_bucket key of
              Upload_Error e \<Rightarrow> (Inl (External e), p, [S3_Upload fastq_path reads_bucket key])
            | Client_Error e \<Rightarrow>
                (Inr (Tuple True), add_ingest_error ''Failed to upload reads to storage bucket'' p,
                 [S3_Upload fastq_path reads_bucket key])
            | Uploaded \<Rightarrow>
                (case link_reads cid_arg
                        [(''reads_1'', Str (s3_uri reads_bucket (cid_str p @ ''_1.fastq.gz'')))]
                        upd False p of
                   (res, p2, acts2) \<Rightarrow> (res, p2, S3_Upload fastq_path reads_bucket key # acts2))))"

subsection \<open>Binned reads (\<open>add_taxon_records\<close>)\<close>

text \<open>An entry of \<open>reads_summary.json\<close>; its scalars are kept as the text of the JSON.\<close>

record taxa =
  taxon :: string
  taxon_id :: string
  human_readable :: string
  tax_level :: string
  num_reads :: string
  avg_qual :: string
  mean_len :: string
  filenames :: "string list"

text \<open>Opening or parsing the summary is outside every \<open>try\<close>.\<close>

datatype summary_file = Summary_Unreadable string | Summary "taxa list"

definition binned_bucket :: string where
  "binned_bucket = ''mscapetest-published-binned-reads''"

definition new_taxon_dict :: "taxa \<Rightarrow> taxon_dict" where
  "new_taxon_dict t =
     \<lparr>td_taxon_id = taxon_id t, td_human_readable = human_readable t,
      td_n_reads = num_reads t, td_avg_quality = avg_qual t, td_mean_len = mean_len t,
      td_tax_level = tax_level t, td_reads = []\<rparr>"

definition binned_failed_message :: "taxa \<Rightarrow> string" where
  "binned_failed_message t =
     ''Failed to upload binned reads for taxon: '' @ taxon t @ '' to storage bucket''"

text \<open>
  One upload of a taxon's reads: \<open>taxa['filenames'][idx]\<close> (an \<open>IndexError\<close> out of range,
  outside the \<open>try\<close>), then \<open>upload_file\<close>. \<open>Inr True\<close>: uploaded; \<open>Inr False\<close>: a
  \<open>ClientError\<close> was caught.
\<close>

definition binned_upload ::
  "s3 \<Rightarrow> string \<Rightarrow> payload \<Rightarrow> taxa \<Rightarrow> nat \<Rightarrow> string \<Rightarrow> (py_error + bool) \<times> action list" where
  "binned_upload store result_path p t idx key =
     (case drop idx (filenames t) of
        [] \<Rightarrow> (Inl IndexError, [])
      | f # fs \<Rightarrow>
          (let fastq_path = path_join result_path (''reads_by_taxa/'' @ f @ ''.gz'')
           in (case store fastq_path binned_bucket key of
                 Uploaded \<Rightarrow> Inr True
               | Client_Error e \<Rightarrow> Inr False
               | Upload_Error e \<Rightarrow> Inl (External e),
               [S3_Upload fastq_path binned_bucket key])))"

text \<open>The inner \<open>for i in (1, 2)\<close> of the illumina branch; its \<open>continue\<close> goes on with \<open>i\<close>.\<close>

fun binned_pair_loop ::
  "s3 \<Rightarrow> string \<Rightarrow> taxa \<Rightarrow> nat list \<Rightarrow> taxon_dict \<Rightarrow> bool \<Rightarrow> payload \<Rightarrow>
   py_error option \<times> taxon_dict \<times> bool \<times> payload \<times> action list" where
  "binned_pair_loop store result_path t [] td fl p = (None, td, fl, p, [])"
| "binned_pair_loop store result_path t (i # rest) td fl p =
     (let key = cid_str p @ ''/'' @ taxon t @ ''_'' @ digits i @ ''.fastq.gz''
      in case binned_upload store result_path p t (i - 1) key of
           (Inl e, acts) \<Rightarrow> (Some e, td, fl, p, acts)
         | (Inr True, acts) \<Rightarrow>
             (case binned_pair_loop store result_path t rest
                     (td\<lparr>td_reads := AList.update (''reads_'' @ digits i)
                                          (s3_uri binned_bucket key) (td_reads td)\<rparr>) fl p of
                (e, td', fl', p', acts') \<Rightarrow> (e, td', fl', p', acts @ acts'))
         | (Inr False, acts) \<Rightarrow>
             (case binned_pair_loop store result_path t rest td True
                     (add_ingest_error (binned_failed_message t) p) of
                (e, td', fl', p', acts') \<Rightarrow> (e, td', fl', p', acts @ acts')))"

text \<open>
  The loop over the summary. In the ont branch \<open>continue\<close> skips
  \<open>nested_records.append(taxon_dict)\<close>; in the illumina branch the record is appended
  whatever the uploads did.
\<close>

fun taxa_loop ::
  "s3 \<Rightarrow> string \<Rightarrow> taxa list \<Rightarrow> taxon_dict list \<Rightarrow> bool \<Rightarrow> payload \<Rightarrow>
   py_error option \<times> taxon_dict list \<times> bool \<times> payload \<times> action list" where
  "taxa_loop store result_path [] nested fl p = (None, nested, fl, p, [])"
| "taxa_loop store result_path (t # rest) nested fl p =
     (if platform p = ''illumina'' then
        (case binned_pair_loop store result_path t [1, 2] (new_taxon_dict t) fl p of
           (Some e, td, fl1, p1, acts) \<Rightarrow> (Some e, nested, fl1, p1, acts)
         | (None, td, fl1, p1, acts) \<Rightarrow>
             (case taxa_loop store result_path rest (nested @ [td]) fl1 p1 of
                (e, nested', fl', p', acts') \<Rightarrow> (e, nested', fl', p', acts @ acts')))
      else if platform p = ''ont'' then
        (let key = cid_str p @ ''/'' @ taxon t @ ''.fastq.gz''
         in case binned_upload store result_path p t 0 key of
              (Inl e, acts) \<Rightarrow> (Some e, nested, fl, p, acts)
            | (Inr True, acts) \<Rightarrow>
                (case taxa_loop store result_path rest
                        (nested @ [(new_taxon_dict t)
                                     \<lparr>td_reads := [(''reads_1'', s3_uri binned_bucket key)]\<rparr>]) fl p of
                   (e, nested', fl', p', acts') \<Rightarrow> (e, nested', fl', p', acts @ acts'))
            | (Inr False, acts) \<Rightarrow>
                (case taxa_loop store result_path rest nested True
                        (add_ingest_error (binned_failed_message t) p) of
                   (e, nested', fl', p', acts') \<Rightarrow> (e, nested', fl', p', acts @ acts')))
      else taxa_loop store result_path rest (nested @ [new_taxon_dict t]) True p)"

definition add_taxon_records ::
  "payload \<Rightarrow> string \<Rightarrow> s3 \<Rightarrow> summary_file \<Rightarrow> update_outcome \<Rightarrow>
   (py_error + bool) \<times> payload \<times> action list" where
  "add_taxon_records p result_path store sf upd =
     (case sf of
        Summary_Unreadable e \<Rightarrow> (Inl (External e), p, [])
      | Summary ts \<Rightarrow>
          (case taxa_loop store result_path ts [] False p of
             (Some e, nested, fl, p1, acts) \<Rightarrow> (Inl e, p1, acts)
           | (None, nested, fl, p1, acts) \<Rightarrow>
               (case handle_update upd fl p1 of
                  (fl2, p2) \<Rightarrow>
                    (Inr fl2, p2,
                     acts @ [Onyx_Update ''mscapetest'' (cid p1) [(''taxa'', Taxa nested)]]))))"

subsection \<open>The report (\<open>push_report_file\<close>)\<close>

definition reports_bucket :: string where
  "reports_bucket = ''mscapetest-published-reports''"

text \<open>The key the report is uploaded under, and the URI written to \<open>validation_report\<close>.\<close>

definition report_key :: "payload \<Rightarrow> string" where
  "report_key p = cid_str p @ ''_scylla_report.html''"

definition report_link :: "payload \<Rightarrow> string" where
  "report_link p = ''s3://mscapetest-published-reports/'' @ cid_str p @ ''_validation_report.html''"

definition push_report_file ::
  "payload \<Rightarrow> string \<Rightarrow> s3 \<Rightarrow> update_outcome \<Rightarrow> (py_error + bool) \<times> payload \<times> action list" where
  "push_report_file p result_path store upd =
     (let report_path = path_join result_path (uuid p @ ''_report.html'');
          upload = S3_Upload report_path reports_bucket (report_key p);
          link = Onyx_Update ''mscapetest'' (cid p) [(''validation_report'', Str (report_link p))]
      in case store report_path reports_bucket (report_key p) of
           Upload_Error e \<Rightarrow> (Inl (External e), p, [upload])
         | Client_Error e \<Rightarrow>
             (case handle_update upd True
                     (add_ingest_error ''Failed to upload scylla report to storage bucket'' p) of
                (fl, p1) \<Rightarrow> (Inr fl, p1, [upload, link]))
         | Uploaded \<Rightarrow>
             (case handle_update upd False p of (fl, p1) \<Rightarrow> (Inr fl, p1, [upload, link])))"

subsection \<open>The loop (\<open>run\<close>)\<close>

record args =
  result_dir :: string
  nxf_config :: "string option"
  args_nxf_executable :: string

text \<open>A received message: \<open>message['site']\<close> and the decoded \<open>message.body\<close>.\<close>

record inbound =
  msg_site :: string
  body :: payload

text \<open>The outcome of every external call of one pass, and the clock.\<close>

record env =
  env_proc :: proc_outcome
  env_trace :: trace_file
  env_create :: create_outcome
  env_s3 :: s3
  env_reads_update :: update_outcome
  env_summary :: summary_file
  env_taxa_update :: update_outcome
  env_report_update :: update_outcome
  env_time_ns :: int

definition ingest_pipe :: "args \<Rightarrow> pipeline" where
  "ingest_pipe a =
     pipeline_init ''snowy-leopard/scylla'' (nxf_config a) (args_nxf_executable a)
       (Some ''docker'') default_timeout_seconds"

text \<open>\<open>onyx_unsuppress\<close> has no \<open>return\<close> statement: it returns \<open>None\<close>.\<close>

definition onyx_unsuppress :: "(bool \<times> payload) option" where
  "onyx_unsuppress = None"

text \<open>
  The rest of an iteration once \<open>onyx_submission\<close> has returned \<open>(ingest_fail, payload)\<close>:
  the publish stage and the end of the loop body. \<open>Inr ()\<close> is the end of the iteration
  (\<open>continue\<close> or the last statement), \<open>Inl\<close> an exception that leaves \<open>run\<close>.

  \<open>raw_read_fail, payload = add_reads_record(...)\<close> unpacks what the function returns.
  When that is the response, the assignment iterates it: with any number of chunks
  but two it raises \<open>ValueError\<close>; with two, \<open>raw_read_fail\<close> and \<open>payload\<close> are
  bound to the chunks, the second is sent if the first is not empty, and
  \<open>add_taxon_records\<close> is entered with a byte string for payload. Unpacking the
  \<open>None\<close> of \<open>onyx_unsuppress\<close> raises \<open>TypeError\<close>.
\<close>

definition unpack_pair :: "string list \<Rightarrow> py_error + string \<times> string" where
  "unpack_pair cs =
     (case cs of
        [] \<Rightarrow> Inl (ValueError ''not enough values to unpack (expected 2, got 0)'')
      | [c1] \<Rightarrow> Inl (ValueError ''not enough values to unpack (expected 2, got 1)'')
      | [c1, c2] \<Rightarrow> Inr (c1, c2)
      | c1 # c2 # c3 # rest \<Rightarrow> Inl (ValueError ''too many values to unpack (expected 2)''))"

text \<open>
  \<open>add_taxon_records\<close> called with a byte string for payload: reading the summary
  comes first; then the first \<open>payload["..."]\<close> raises \<open>TypeError\<close>, in the loop
  (\<open>payload["platform"]\<close>) or, for an empty summary, in the arguments of the update
  and again in its handler. No upload and no update is made.
\<close>

definition add_taxon_records_bytes :: "summary_file \<Rightarrow> py_error" where
  "add_taxon_records_bytes sf =
     (case sf of
        Summary_Unreadable e \<Rightarrow> External e
      | Summary ts \<Rightarrow> TypeError ''byte indices must be integers or slices, not str'')"

definition run_after_submission ::
  "env \<Rightarrow> inbound \<Rightarrow> string \<Rightarrow> bool \<Rightarrow> payload \<Rightarrow> (py_error + unit) \<times> action list" where
  "run_after_submission ev message result_path ingest_fail p =
     (let ex = results_exchange (msg_site message) in
      if ingest_fail then (Inr (), [Send ex (Outcome p)])
      else
        (case add_reads_record (cid p) p (env_s3 ev) (env_reads_update ev) result_path of
           (Inl e, p1, a1) \<Rightarrow> (Inl e, a1)
         | (Inr (Response_Object r), p1, a1) \<Rightarrow>
             (case unpack_pair (chunks r) of
                Inl e \<Rightarrow> (Inl e, a1)
              | Inr (c1, c2) \<Rightarrow>
                  (Inl (add_taxon_records_bytes (env_summary ev)),
                   a1 @ (if c1 \<noteq> [] then [Send ex (Raw_Bytes c2)] else [])))
         | (Inr (Tuple raw_read_fail), p1, a1) \<Rightarrow>
             (let s1 = (if raw_read_fail then [Send ex (Outcome p1)] else []) in
              case add_taxon_records p1 result_path (env_s3 ev) (env_summary ev)
                     (env_taxa_update ev) of
                (Inl e, p2, a2) \<Rightarrow> (Inl e, a1 @ s1 @ a2)
              | (Inr binned_read_fail, p2, a2) \<Rightarrow>
                  (let s2 = (if binned_read_fail then [Send ex (Outcome p2)] else []) in
                   case push_report_file p2 result_path (env_s3 ev) (env_report_update ev) of
                     (Inl e, p3, a3) \<Rightarrow> (Inl e, a1 @ s1 @ a2 @ s2 @ a3)
                   | (Inr report_fail, p3, a3) \<Rightarrow>
                       (let s3 = (if report_fail then [Send ex (Outcome p3)] else []);
                            done = a1 @ s1 @ a2 @ s2 @ a3 @ s3
                        in if raw_read_fail \<or> binned_read_fail \<or> report_fail then
                             (Inr (), done @ [Send ex (Outcome p3)])
                           else
                             (case onyx_unsuppress of
                                None \<Rightarrow>
                                  (Inl (TypeError ''cannot unpack non-iterable NoneType object''),
                                   done)
                              | Some (unsuppress_fail, p4) \<Rightarrow>
                                  if unsuppress_fail then (Inr (), done @ [Send ex (Outcome p4)])
                                  else
                                    (Inr (),
                                     done @
                                     [Send ''inbound.new_artifact.mscape''
                                        (New_Artifact
                                           \<lparr>na_ingest_timestamp = env_time_ns ev,
                                            na_cid = cid p4, na_site = site p4,
                                            na_match_uuid = uuid p4\<rparr>),
                                      Send ex (Outcome (p4\<lparr>ingested := True\<rparr>))])))))))"

text \<open>
  One iteration of \<open>while True\<close>, from the receipt of a message to the call of
  \<open>onyx_submission\<close>. \<open>run\<close> passes that call the keyword \<open>ingest_fail\<close>, which
  \<open>onyx_submission(log, payload, varys_client)\<close> does not take: the call raises
  \<open>TypeError\<close> before the function is entered. Writing \<open>nextflow.stdout\<close> and
  \<open>nextflow.stderr\<close> is not modelled.
\<close>

definition run_pass :: "args \<Rightarrow> env \<Rightarrow> inbound \<Rightarrow> (py_error + unit) \<times> action list" where
  "run_pass a ev message =
     (let to_validate = body message;
          p = to_validate;
          ex = results_exchange (msg_site message)
      in if project to_validate \<noteq> ''mscapetest'' then (Inr (), [])
         else if \<not> onyx_test_create_status to_validate then (Inr (), [Send ex (Outcome p)])
         else
           (case execute_validation_pipeline p (result_dir a) (ingest_pipe a) (env_proc ev) of
              (Inl e, a1) \<Rightarrow> (Inl e, a1)
            | (Inr (rc, timeout, out, err), a1) \<Rightarrow>
                if timeout then
                  (Inr (), a1 @ [Send ex (Outcome (add_ingest_error ''Validation pipeline timeout'' p))])
                else if rc \<noteq> 0 then
                  (Inr (),
                   a1 @ [Send ex (Outcome (add_ingest_error
                                     (''Scylla exited with non-0 exit code: '' @ str_int rc) p))])
                else
                  (case ret_0_parser p (msg_site message) (env_trace ev) False of
                     (Inl e, p1, a2) \<Rightarrow> (Inl e, a1 @ a2)
                   | (Inr ingest_fail, p1, a2) \<Rightarrow>
                       if test_flag p1 then
                         (Inr (), a1 @ a2 @ [Send ex (Outcome (p1\<lparr>test_ingest_result := True\<rparr>))])
                       else
                         (Inl (TypeError (''onyx_submission() got an unexpected keyword argument ''
                                          @ quoted ''ingest_fail'')),
                          a1 @ a2))))"

subsection \<open>Vocabulary of the properties\<close>

text \<open>The messages held for a field, none when the key is missing.\<close>

definition field_errors :: "(string \<rightharpoonup> string list) \<Rightarrow> string \<Rightarrow> string list" where
  "field_errors errs f = (case errs f of None \<Rightarrow> [] | Some ms \<Rightarrow> ms)"



text \<open>The payloads sent as outcome messages, in order.\<close>

fun sent_payloads :: "action list \<Rightarrow> payload list" where
  "sent_payloads [] = []"
| "sent_payloads (Send ex (Outcome p) # acts) = p # sent_payloads acts"
| "sent_payloads (a # acts) = sent_payloads acts"

subsection \<open>Concrete inputs\<close>

definition example_payload :: payload where
  "example_payload =
     \<lparr>uuid = ''u-1'', artifact = ''run1'', project = ''mscapetest'', site = ''birm'',
      site_code = ''birm'',
      platform = ''ont'', files = (\<lambda>k. \<lparr>uri = ''s3://inbound/run1'' @ k, etag = ''e1''\<rparr>),
      cid = None, created = False, ingested = False, test_flag = False,
      test_ingest_result = False, onyx_test_create_status = True, onyx_status_code = None,
      onyx_errors = Map.empty, onyx_create_status = False, ingest_errors = []\<rparr>"

definition example_message :: inbound where
  "example_message = \<lparr>msg_site = ''birm'', body = example_payload\<rparr>"

definition example_args :: args where
  "example_args =
     \<lparr>result_dir = ''/results'', nxf_config = None, args_nxf_executable = ''nextflow''\<rparr>"

definition ok_response :: response where
  "ok_response = \<lparr>status_code = 200, messages = None, data_cid = None, chunks = [''{}'']\<rparr>"

definition created_response :: response where
  "created_response =
     \<lparr>status_code = 201, messages = None, data_cid = Some ''C-123'', chunks = [''{}'']\<rparr>"

definition invalid_response :: response where
  "invalid_response =
     \<lparr>status_code = 422, messages = Some [(''field_x'', [''bad value''])], data_cid = None,
      chunks = [''{}'']\<rparr>"

definition all_uploaded :: s3 where
  "all_uploaded path bucket key = Uploaded"

text \<open>Every external call succeeds: a clean trace, a 201 on create, every upload and update fine.\<close>

definition example_env :: env where
  "example_env =
     \<lparr>env_proc = Completed 0 [] [], env_trace = Trace_Rows [] None,
      env_create = Create_Response created_response,
      env_s3 = all_uploaded,
      env_reads_update = Update_Response ok_response, env_summary = Summary [],
      env_taxa_update = Update_Response ok_response,
      env_report_update = Update_Response ok_response, env_time_ns = 0\<rparr>"

text \<open>The raw reads cannot be uploaded; everything else succeeds.\<close>

definition reads_fail_s3 :: s3 where
  "reads_fail_s3 path bucket key =
     (if bucket = reads_bucket then Client_Error ''AccessDenied'' else Uploaded)"

definition created_payload :: payload where
  "created_payload =
     example_payload\<lparr>cid := Some ''C-123'', created := True, onyx_create_status := True,
                     onyx_status_code := Some 201\<rparr>"

section \<open>Properties\<close>

subsection \<open>The error accumulators\<close>





lemma filter_no_key: "f \<notin> fst ` set ms \<Longrightarrow> filter (\<lambda>kv. fst kv = f) ms = []"
  by (induction ms) auto

text \<open>
  What the merge loop leaves under a field: the messages it held, then the messages of
  every item of the response for that field, in order.
\<close>

lemma merge_loop_apply:
  "merge_loop ms errs f =
     (if f \<in> fst ` set ms
      then Some (field_errors errs f @ concat (map snd (filter (\<lambda>kv. fst kv = f) ms)))
      else errs f)"
proof (induction ms arbitrary: errs)
  case Nil
  show ?case by simp
next
  case (Cons kv ms)
  obtain k v where kv: "kv = (k, v)" by (cases kv)
  have step: "(case errs k of None \<Rightarrow> errs(k \<mapsto> v)
               | Some old \<Rightarrow> if old = [] then errs(k \<mapsto> v) else errs(k \<mapsto> old @ v))
              = errs(k \<mapsto> field_errors errs k @ v)"
    by (simp add: field_errors_def split: option.splits)
  show ?case
    unfolding kv merge_loop.simps step Cons.IH
    by (simp add: field_errors_def filter_no_key)
qed








































subsection \<open>The pipeline executor\<close>

text \<open>
  C2. When the pipeline runs past its budget, \<open>subprocess.run\<close> raises
  \<open>TimeoutExpired\<close>; the claim has \<open>pipeline.execute\<close> return a tuple with
  \<open>timed_out = true\<close> and the loop emit one outcome with the error
  "Validation pipeline timeout". In the code \<open>execute\<close> raises \<open>UnboundLocalError\<close>
  (\<open>proc\<close> was never bound), for every pipeline and every parameter set, and an
  iteration of \<open>run\<close> that gets as far as the pipeline ends with that exception having
  sent no outcome to any exchange.
\<close>

theorem execute_timeout_raises:
  "fst (execute self params Timeout_Expired) = Inl (UnboundLocalError ''proc'') \<and>
   fst (run_pass a (ev\<lparr>env_proc := Timeout_Expired\<rparr>)
          (message\<lparr>body := (body message)\<lparr>project := ''mscapetest'',
                                          onyx_test_create_status := True\<rparr>\<rparr>))
     = Inl (UnboundLocalError ''proc'') \<and>
   outcomes_sent ex
     (snd (run_pass a (ev\<lparr>env_proc := Timeout_Expired\<rparr>)
             (message\<lparr>body := (body message)\<lparr>project := ''mscapetest'',
                                             onyx_test_create_status := True\<rparr>\<rparr>))) = 0"
  by (simp add: run_pass_def execute_validation_pipeline_def execute_def Let_def
      outcomes_sent_def)

text \<open>
  C7. The claim has an unrecognised platform stop the stage with an error on the
  payload and no pipeline run. In the code \<open>execute_validation_pipeline\<close> runs the
  pipeline for such a payload too, with the base parameters and no read files; and a
  test-mode message with platform \<open>pacbio\<close>, whose pipeline exits 0 with an empty trace,
  ends with one outcome that carries no error and \<open>test_ingest_result = True\<close>.
\<close>

theorem unrecognised_platform_runs_pipeline:
  "snd (execute_validation_pipeline (p\<lparr>platform := ''pacbio''\<rparr>) rd pl pr)
     = [Subprocess (command_line pl (base_parameters p rd)) (timeout_seconds pl)] \<and>
   fst (run_pass example_args example_env
          (example_message\<lparr>body := example_payload\<lparr>platform := ''pacbio'', test_flag := True\<rparr>\<rparr>))
     = Inr () \<and>
   map (\<lambda>q. (ingest_errors q, test_ingest_result q))
     (sent_payloads
        (snd (run_pass example_args example_env
                (example_message\<lparr>body := example_payload\<lparr>platform := ''pacbio'',
                                                            test_flag := True\<rparr>\<rparr>))))
     = [([], True)]"
  by (simp add: execute_validation_pipeline_def execute_def base_parameters_def run_pass_def
      ret_0_parser_def example_message_def example_payload_def example_env_def Let_def)

subsection \<open>The execution trace\<close>

text \<open>
  C4. The claim has \<open>ret_0_parser\<close> turn a trace file that cannot be opened into a
  recorded failure and return \<open>(True, payload)\<close>. In the code the error is appended and
  the payload sent, and then the function raises \<open>UnboundLocalError\<close>: \<open>trace_dict\<close> is
  bound inside the \<open>try\<close>, after \<open>open\<close>.
\<close>

theorem ret_0_parser_cannot_open_raises:
  "ret_0_parser p st (Cannot_Open e) fl =
     (Inl (UnboundLocalError ''trace_dict''),
      add_ingest_error ''couldn't open nxf ingest pipeline trace'' p,
      [Send (results_exchange st)
         (Outcome (add_ingest_error ''couldn't open nxf ingest pipeline trace'' p))])"
  by (simp add: ret_0_parser_def Let_def)

text \<open>
  C6. The claim has a read-extraction process that exits with a non-zero code other
  than 2 recorded with the generic reason. In the code \<open>extract_paired_reads\<close> exiting 1
  is recorded with the human-reads reason, which is not the generic one: the condition
  reads \<open>A or (B and C)\<close>, so the exit status is only looked at for \<open>extract_reads\<close>.
\<close>

theorem extract_paired_reads_exit_1_is_human_reads:
  "ret_0_parser p st
     (Trace_Rows [\<lparr>name = ''scylla:extract_paired_reads'', exit = ''1'', status = ''FAILED''\<rparr>] None)
     False
     = (Inr True, add_ingest_error human_reads_message p, []) \<and>
   human_reads_message
     \<noteq> process_failed_message ''extract_paired_reads''
         \<lparr>name = ''scylla:extract_paired_reads'', exit = ''1'', status = ''FAILED''\<rparr>"
  by (simp add: ret_0_parser_def short_name_def human_reads_message_def
      process_failed_message_def)

subsection \<open>Record creation\<close>

text \<open>
  C3. The claim has \<open>onyx_submission\<close> return \<open>(False, payload)\<close> on a 201. In the code
  the 201 branch never assigns \<open>ingest_fail\<close>: the function sets \<open>cid\<close>, \<open>created\<close> and
  \<open>onyx_create_status\<close>, its handler then records the \<open>UnboundLocalError\<close> of
  \<open>if ingest_fail:\<close> as a client error, and \<open>return (ingest_fail, payload)\<close> raises it
  again. Whatever the create call does, the function never returns \<open>False\<close>.
\<close>

theorem onyx_submission_201_raises:
  "fst (onyx_submission (Create_Response (r\<lparr>status_code := 201\<rparr>)) p)
     = Inl (UnboundLocalError ''ingest_fail'') \<and>
   fst (onyx_submission cr p) \<noteq> Inr False \<and>
   fst (snd (onyx_submission (Create_Response created_response) example_payload))
     = set_client_error (''Unhandled client error '' @ exc_str (UnboundLocalError ''ingest_fail''))
         created_payload"
proof (intro conjI)
  show "fst (onyx_submission (Create_Response (r\<lparr>status_code := 201\<rparr>)) p)
          = Inl (UnboundLocalError ''ingest_fail'')"
    by (simp add: onyx_submission_def submission_try_def status_branch_def split: option.splits)
  show "fst (onyx_submission cr p) \<noteq> Inr False"
    by (simp add: onyx_submission_def submission_try_def status_branch_def
        split: option.splits create_outcome.splits sum.splits prod.splits if_splits)
  show "fst (snd (onyx_submission (Create_Response created_response) example_payload))
          = set_client_error
              (''Unhandled client error '' @ exc_str (UnboundLocalError ''ingest_fail''))
              created_payload"
    by (simp add: onyx_submission_def submission_try_def status_branch_def
        created_response_def created_payload_def example_payload_def)
qed

lemma filter_distinct_key:
  "distinct (map fst ms) \<Longrightarrow> (f, msgs) \<in> set ms \<Longrightarrow> filter (\<lambda>kv. fst kv = f) ms = [(f, msgs)]"
proof (induction ms)
  case Nil
  then show ?case by simp
next
  case (Cons kv ms)
  show ?case
  proof (cases "fst kv = f")
    case True
    with Cons.prems have "f \<notin> fst ` set ms" by auto
    then have "filter (\<lambda>kv. fst kv = f) ms = []" and "(f, msgs) \<notin> set ms"
      by (auto simp: filter_no_key intro: rev_image_eqI)
    with True Cons.prems show ?thesis by auto
  next
    case False
    with Cons show ?thesis by auto
  qed
qed

text \<open>
  C8. On a 422 whose body carries the messages \<open>ms\<close> (the items of a JSON object, so
  with distinct field names), \<open>onyx_submission\<close> returns \<open>True\<close>; under every field \<open>f\<close>
  of \<open>ms\<close> the payload then holds what it held for \<open>f\<close> followed by the messages of
  \<open>f\<close>; every other field is as it was; and the payload sent to the results exchange
  is that payload.
\<close>

theorem onyx_submission_422_merges:
  assumes "status_code r = 422" and "messages r = Some ms"
    and "distinct (map fst ms)" and "(f, msgs) \<in> set ms"
  shows "fst (onyx_submission (Create_Response r) p) = Inr True \<and>
         onyx_errors (fst (snd (onyx_submission (Create_Response r) p))) f
           = Some (field_errors (onyx_errors p) f @ msgs) \<and>
         (g \<notin> fst ` set ms \<longrightarrow>
            onyx_errors (fst (snd (onyx_submission (Create_Response r) p))) g = onyx_errors p g) \<and>
         snd (snd (onyx_submission (Create_Response r) p))
           = [Onyx_Create (project p) (uri (files p ''.csv'')) (etag (files p ''.csv'')),
              Send (results_exchange (site_code p))
                (Outcome (fst (snd (onyx_submission (Create_Response r) p))))]"
proof -
  have ne: "ms \<noteq> []" and key: "f \<in> fst ` set ms"
    using assms(4) by (auto intro: rev_image_eqI)
  have sub: "onyx_submission (Create_Response r) p =
      (Inr True,
       p\<lparr>onyx_status_code := Some 422, onyx_errors := merge_loop ms (onyx_errors p)\<rparr>,
       [Onyx_Create (project p) (uri (files p ''.csv'')) (etag (files p ''.csv'')),
        Send (results_exchange (site_code p))
          (Outcome (p\<lparr>onyx_status_code := Some 422,
                       onyx_errors := merge_loop ms (onyx_errors p)\<rparr>))])"
    using assms(1,2) ne
    by (simp add: onyx_submission_def submission_try_def status_branch_def merge_messages_def)
  show ?thesis
    using key filter_distinct_key [OF assms(3,4)]
    by (simp add: sub merge_loop_apply)
qed

theorem onyx_submission_422_merges_witness:
  "status_code invalid_response = 422 \<and>
   messages invalid_response = Some [(''field_x'', [''bad value''])] \<and>
   fst (onyx_submission (Create_Response invalid_response) example_payload) = Inr True \<and>
   onyx_errors (fst (snd (onyx_submission (Create_Response invalid_response) example_payload)))
     ''field_x'' = Some [''bad value'']"
proof -
  have h: "status_code invalid_response = 422"
    "messages invalid_response = Some [(''field_x'', [''bad value''])]"
    "distinct (map fst [(''field_x'', [''bad value''])])"
    "(''field_x'', [''bad value'']) \<in> set [(''field_x'', [''bad value''])]"
    by (simp_all add: invalid_response_def)
  show ?thesis
    using h(1,2) onyx_submission_422_merges [OF h, of example_payload "''field_y''"]
    by (simp add: field_errors_def example_payload_def)
qed

subsection \<open>The report\<close>

text \<open>
  C10. For a payload with cid \<open>c\<close>, \<open>push_report_file\<close> uploads the report to the reports
  bucket under the key \<open>c_scylla_report.html\<close>, and the \<open>validation_report\<close> it writes
  to the record is \<open>s3://mscapetest-published-reports/c_validation_report.html\<close> (the
  update is made unless the upload raised something other than \<open>ClientError\<close>). The URI
  written is never the location of the object uploaded.
\<close>

theorem push_report_file_link_differs:
  assumes "cid p = Some c"
  shows "snd (snd (push_report_file p rp store upd)) =
           S3_Upload (path_join rp (uuid p @ ''_report.html'')) ''mscapetest-published-reports''
             (c @ ''_scylla_report.html'')
           # (case store (path_join rp (uuid p @ ''_report.html'')) ''mscapetest-published-reports''
                     (c @ ''_scylla_report.html'') of
                Upload_Error e \<Rightarrow> []
              | Client_Error e \<Rightarrow>
                  [Onyx_Update ''mscapetest'' (Some c)
                     [(''validation_report'',
                       Str (''s3://mscapetest-published-reports/'' @ c @ ''_validation_report.html''))]]
              | Uploaded \<Rightarrow>
                  [Onyx_Update ''mscapetest'' (Some c)
                     [(''validation_report'',
                       Str (''s3://mscapetest-published-reports/'' @ c @ ''_validation_report.html''))]])
         \<and> ''s3://mscapetest-published-reports/'' @ c @ ''_validation_report.html''
             \<noteq> s3_uri ''mscapetest-published-reports'' (c @ ''_scylla_report.html'')"
  using assms
  by (simp add: push_report_file_def Let_def report_key_def report_link_def cid_str_def
      reports_bucket_def s3_uri_def split_beta split: upload_outcome.splits)

theorem push_report_file_link_differs_witness:
  "cid created_payload = Some ''C-123'' \<and>
   snd (snd (push_report_file created_payload ''/results/u-1'' all_uploaded
               (Update_Response ok_response))) =
     [S3_Upload ''/results/u-1/u-1_report.html'' ''mscapetest-published-reports''
        ''C-123_scylla_report.html'',
      Onyx_Update ''mscapetest'' (Some ''C-123'')
        [(''validation_report'',
          Str ''s3://mscapetest-published-reports/C-123_validation_report.html'')]] \<and>
   ''s3://mscapetest-published-reports/C-123_validation_report.html''
     \<noteq> s3_uri ''mscapetest-published-reports'' ''C-123_scylla_report.html''"
proof -
  have c: "cid created_payload = Some ''C-123''"
    by (simp add: created_payload_def)
  show ?thesis
    using c push_report_file_link_differs [OF c, of "''/results/u-1''" all_uploaded
        "Update_Response ok_response"]
    by (simp add: created_payload_def example_payload_def path_join_def all_uploaded_def)
qed

subsection \<open>The publish stage and the outcome messages\<close>




text \<open>
  C5. The claim has each of the three publish operations return \<open>(failed, payload)\<close>
  on every path. In the code \<open>add_reads_record\<close> returns the response of the update
  when every upload and the update succeed, for either platform. \<open>run\<close> unpacks it
  into two names: that raises \<open>ValueError\<close>, or binds both names to chunks of the
  body, after which \<open>add_taxon_records\<close> raises on the byte string it is given. Either
  way the iteration ends with an exception, and no upload or update of the binned reads
  or of the report is made. \<open>add_taxon_records\<close> also raises when the summary cannot
  be read.
\<close>

theorem add_reads_record_returns_response:
  "fst (add_reads_record c p all_uploaded (Update_Response r) rp) = Inr (Response_Object r) \<and>
   run_after_submission (ev\<lparr>env_s3 := all_uploaded, env_reads_update := Update_Response r\<rparr>)
       m rp False p
     = (case unpack_pair (chunks r) of
          Inl e \<Rightarrow>
            (Inl e, snd (snd (add_reads_record (cid p) p all_uploaded (Update_Response r) rp)))
        | Inr (c1, c2) \<Rightarrow>
            (Inl (add_taxon_records_bytes (env_summary ev)),
             snd (snd (add_reads_record (cid p) p all_uploaded (Update_Response r) rp))
             @ (if c1 \<noteq> [] then [Send (results_exchange (msg_site m)) (Raw_Bytes c2)] else []))) \<and>
   fst (run_after_submission (ev\<lparr>env_s3 := all_uploaded, env_reads_update := Update_Response r\<rparr>)
          m rp False p) \<noteq> Inr () \<and>
   run_after_submission example_env example_message ''/results/u-1'' False created_payload
     = (Inl (ValueError ''not enough values to unpack (expected 2, got 1)''),
        [S3_Upload ''/results/u-1/preprocess/u-1.fastp.fastq.gz'' ''mscapetest-published-reads''
           ''C-123.fastq.gz'',
         Onyx_Update ''mscapetest'' (Some ''C-123'')
           [(''reads_1'', Str ''s3://mscapetest-published-reads/C-123_1.fastq.gz'')]]) \<and>
   fst (add_taxon_records p rp store (Summary_Unreadable e) upd) = Inl (External e)"
proof -
  obtain p1 a1 where
    s1: "add_reads_record (cid p) p all_uploaded (Update_Response r) rp
           = (Inr (Response_Object r), p1, a1)"
    by (cases "platform p = ''illumina''")
      (simp_all add: add_reads_record_def link_reads_def all_uploaded_def Let_def)
  have general: "run_after_submission
       (ev\<lparr>env_s3 := all_uploaded, env_reads_update := Update_Response r\<rparr>) m rp False p
     = (case unpack_pair (chunks r) of
          Inl e \<Rightarrow> (Inl e, a1)
        | Inr (c1, c2) \<Rightarrow>
            (Inl (add_taxon_records_bytes (env_summary ev)),
             a1 @ (if c1 \<noteq> [] then [Send (results_exchange (msg_site m)) (Raw_Bytes c2)] else [])))"
    by (simp add: run_after_submission_def s1 Let_def split: sum.splits prod.splits)
  have first: "fst (add_reads_record c p all_uploaded (Update_Response r) rp)
                 = Inr (Response_Object r)"
    by (simp add: add_reads_record_def link_reads_def all_uploaded_def Let_def)
  have never: "fst (run_after_submission
       (ev\<lparr>env_s3 := all_uploaded, env_reads_update := Update_Response r\<rparr>) m rp False p)
       \<noteq> Inr ()"
    by (simp add: general split: sum.splits prod.splits)
  have example: "run_after_submission example_env example_message ''/results/u-1'' False
       created_payload
     = (Inl (ValueError ''not enough values to unpack (expected 2, got 1)''),
        [S3_Upload ''/results/u-1/preprocess/u-1.fastp.fastq.gz'' ''mscapetest-published-reads''
           ''C-123.fastq.gz'',
         Onyx_Update ''mscapetest'' (Some ''C-123'')
           [(''reads_1'', Str ''s3://mscapetest-published-reads/C-123_1.fastq.gz'')]])"
    by (simp add: run_after_submission_def add_reads_record_def link_reads_def all_uploaded_def
        example_env_def example_message_def created_payload_def example_payload_def
        ok_response_def unpack_pair_def path_join_def cid_str_def s3_uri_def reads_bucket_def
        Let_def)
  have summary: "fst (add_taxon_records p rp store (Summary_Unreadable e) upd) = Inl (External e)"
    by (simp add: add_taxon_records_def)
  have a1: "a1 = snd (snd (add_reads_record (cid p) p all_uploaded (Update_Response r) rp))"
    by (simp add: s1)
  show ?thesis
    by (intro conjI first general [unfolded a1] never example summary)
qed

text \<open>
  C1. The claim has every pass that gets through the project filter emit exactly one
  outcome. In the code a pass with a clean pipeline run and \<open>test_flag\<close> off ends at the
  call of \<open>onyx_submission\<close> with a \<open>TypeError\<close> and no outcome sent. Had the call gone
  through, a failed record creation sends the outcome twice: once in \<open>onyx_submission\<close>
  and once in \<open>run\<close>. And in the publish stage a failed upload of the raw reads sends
  it twice as well: once after \<open>add_reads_record\<close> and once at the aggregate check.
\<close>

theorem outcome_not_emitted_once:
  "fst (run_pass example_args example_env example_message)
     = Inl (TypeError (''onyx_submission() got an unexpected keyword argument ''
                       @ quoted ''ingest_fail'')) \<and>
   outcomes_sent (results_exchange ''birm'')
     (snd (run_pass example_args example_env example_message)) = 0 \<and>
   fst (onyx_submission (Create_Response invalid_response) example_payload) = Inr True \<and>
   outcomes_sent (results_exchange ''birm'')
     (snd (snd (onyx_submission (Create_Response invalid_response) example_payload))
      @ snd (run_after_submission example_env example_message ''/results/u-1'' True
               (fst (snd (onyx_submission (Create_Response invalid_response) example_payload)))))
     = 2 \<and>
   fst (run_after_submission (example_env\<lparr>env_s3 := reads_fail_s3\<rparr>) example_message
          ''/results/u-1'' False created_payload) = Inr () \<and>
   outcomes_sent (results_exchange ''birm'')
     (snd (run_after_submission (example_env\<lparr>env_s3 := reads_fail_s3\<rparr>) example_message
             ''/results/u-1'' False created_payload)) = 2"
proof (intro conjI)
  show "fst (run_pass example_args example_env example_message)
     = Inl (TypeError (''onyx_submission() got an unexpected keyword argument ''
                       @ quoted ''ingest_fail''))"
    by (simp add: run_pass_def execute_validation_pipeline_def execute_def ret_0_parser_def
        example_env_def example_message_def example_payload_def Let_def)
  show "outcomes_sent (results_exchange ''birm'')
     (snd (run_pass example_args example_env example_message)) = 0"
    by (simp add: run_pass_def execute_validation_pipeline_def execute_def ret_0_parser_def
        example_env_def example_message_def example_payload_def Let_def outcomes_sent_def)
  show "fst (onyx_submission (Create_Response invalid_response) example_payload) = Inr True"
    by (simp add: onyx_submission_def submission_try_def status_branch_def invalid_response_def)
  show "outcomes_sent (results_exchange ''birm'')
     (snd (snd (onyx_submission (Create_Response invalid_response) example_payload))
      @ snd (run_after_submission example_env example_message ''/results/u-1'' True
               (fst (snd (onyx_submission (Create_Response invalid_response) example_payload)))))
     = 2"
    by (simp add: onyx_submission_def submission_try_def status_branch_def invalid_response_def
        merge_messages_def run_after_submission_def example_message_def example_payload_def
        outcomes_sent_def Let_def)
  show "fst (run_after_submission (example_env\<lparr>env_s3 := reads_fail_s3\<rparr>) example_message
          ''/results/u-1'' False created_payload) = Inr ()"
    by (simp add: run_after_submission_def add_reads_record_def add_taxon_records_def
        push_report_file_def handle_update_def reads_fail_s3_def reads_bucket_def
        reports_bucket_def ok_response_def example_env_def example_message_def
        created_payload_def example_payload_def Let_def)
  show "outcomes_sent (results_exchange ''birm'')
     (snd (run_after_submission (example_env\<lparr>env_s3 := reads_fail_s3\<rparr>) example_message
             ''/results/u-1'' False created_payload)) = 2"
    by (simp add: run_after_submission_def add_reads_record_def add_taxon_records_def
        push_report_file_def handle_update_def reads_fail_s3_def reads_bucket_def
        reports_bucket_def ok_response_def example_env_def example_message_def
        created_payload_def example_payload_def outcomes_sent_def Let_def)
qed

end
